theory Spec2Isabelle
  imports Main "HOL-Library.Sublist"
begin

section \<open>The toolchain as the preprocessor sees it\<close>

text \<open>
  \<^verbatim>\<open>src/base/compiler.hh\<close> is a header of macro definitions chosen by conditional
  compilation. Its conditionals read four facts about the toolchain and nothing else:
  \<^verbatim>\<open>__has_cpp_attribute(x)\<close> (lines 55, 64, 73), \<^verbatim>\<open>defined(__GNUC__)\<close> (lines 75, 88),
  \<^verbatim>\<open>defined(__clang__)\<close> (lines 124, 158) and the value of \<^verbatim>\<open>__GNUC__\<close> (line 124).
  A configuration records exactly these. \<open>GNUC cfg = None\<close> says that \<^verbatim>\<open>__GNUC__\<close> is not
  defined; the header's comment on line 88 reads \<^verbatim>\<open>defined(__GNUC__)\<close> as "clang or gcc".
  The preprocessor is one that knows \<^verbatim>\<open>__has_cpp_attribute\<close>, so that lines 55, 64 and 73
  are conditions it can evaluate.
\<close>

record config =
  has_cpp_attribute :: "string \<Rightarrow> bool"
  GNUC :: "nat option"
  clang :: bool

definition defined_GNUC :: "config \<Rightarrow> bool" where
  "defined_GNUC cfg = (GNUC cfg \<noteq> None)"

text \<open>In an \<^verbatim>\<open>#if\<close> expression an identifier that is not a macro evaluates to 0.\<close>

definition GNUC_value :: "config \<Rightarrow> nat" where
  "GNUC_value cfg = (case GNUC cfg of None \<Rightarrow> 0 | Some v \<Rightarrow> v)"

text \<open>
  What stops a build: an \<^verbatim>\<open>#error\<close> directive, whose diagnostic carries the directive's
  tokens, or code that the compiler rejects as ill-formed, here an array without elements
  (with the array's name). Both \<^verbatim>\<open>#error\<close> directives of the header (lines 80 and 151)
  carry the same string literal.
\<close>

datatype error = HashError string | ZeroSizeArray string

definition dont_know :: error where
  \<open>dont_know = HashError ''"Don't know what to do for your compiler."''\<close>

section \<open>Attribute macros: the replacement text per configuration\<close>

text \<open>
  Each macro is a function from the configuration (and the macro's arguments) to its
  replacement text, or to the \<^verbatim>\<open>#error\<close> that the conditional around its definition
  raises instead of defining it. Text is kept character for character as the header
  spells it.
\<close>

text \<open>Lines 55 to 60.\<close>

definition GEM5_FALLTHROUGH :: "config \<Rightarrow> error + string" where
  "GEM5_FALLTHROUGH cfg =
     (if has_cpp_attribute cfg ''fallthrough'' then Inr ''[[fallthrough]]'' else Inr '''')"

text \<open>Lines 64 to 69.\<close>

definition GEM5_NO_DISCARD :: "config \<Rightarrow> error + string" where
  "GEM5_NO_DISCARD cfg =
     (if has_cpp_attribute cfg ''nodiscard'' then Inr ''[[nodiscard]]'' else Inr '''')"

text \<open>Lines 73 to 81: the standard attribute, else the GNU one, else \<^verbatim>\<open>#error\<close>.\<close>

definition GEM5_VAR_USED :: "config \<Rightarrow> error + string" where
  "GEM5_VAR_USED cfg =
     (if has_cpp_attribute cfg ''maybe_unused'' then Inr ''[[maybe_unused]]''
      else if defined_GNUC cfg then Inr ''[[gnu::unused]]''
      else Inl dont_know)"

text \<open>
  Lines 88 and 150 to 152: the block of compiler specific features. What stands inside
  is defined when \<^verbatim>\<open>__GNUC__\<close> is; otherwise the \<^verbatim>\<open>#else\<close> branch raises \<^verbatim>\<open>#error\<close>.
\<close>

definition ifdef_GNUC :: "config \<Rightarrow> error + 'a \<Rightarrow> error + 'a" where
  "ifdef_GNUC cfg body = (if defined_GNUC cfg then body else Inl dont_know)"

definition GEM5_PACKED :: "config \<Rightarrow> error + string" where
  "GEM5_PACKED cfg = ifdef_GNUC cfg (Inr ''[[gnu::packed]]'')"

definition GEM5_NO_INLINE :: "config \<Rightarrow> error + string" where
  "GEM5_NO_INLINE cfg = ifdef_GNUC cfg (Inr ''[[gnu::noinline]]'')"

text \<open>Lines 98 to 100. Line 98 has one colon after \<^verbatim>\<open>gnu\<close>, lines 99 and 100 have two.\<close>

definition GEM5_PUBLIC :: "config \<Rightarrow> error + string" where
  \<open>GEM5_PUBLIC cfg = ifdef_GNUC cfg (Inr ''[[gnu:visibility("default")]]'')\<close>

definition GEM5_LOCAL :: "config \<Rightarrow> error + string" where
  \<open>GEM5_LOCAL cfg = ifdef_GNUC cfg (Inr ''[[gnu::visibility("hidden")]]'')\<close>

definition GEM5_WEAK :: "config \<Rightarrow> error + string" where
  "GEM5_WEAK cfg = ifdef_GNUC cfg (Inr ''[[gnu::weak]]'')"

definition GEM5_ALIGNED :: "config \<Rightarrow> string \<Rightarrow> error + string" where
  "GEM5_ALIGNED cfg alignment = ifdef_GNUC cfg (Inr (''[[gnu::aligned('' @ alignment @ '')]]''))"

definition GEM5_UNREACHABLE :: "config \<Rightarrow> error + string" where
  "GEM5_UNREACHABLE cfg = ifdef_GNUC cfg (Inr ''__builtin_unreachable()'')"

text \<open>Line 118.\<close>

definition GEM5_DEPRECATED :: "config \<Rightarrow> string \<Rightarrow> error + string" where
  "GEM5_DEPRECATED cfg message =
     ifdef_GNUC cfg (Inr (''[[gnu::deprecated('' @ message @ '')]]''))"

text \<open>Lines 124 to 128, inside the block of line 88.\<close>

definition GEM5_DEPRECATED_ENUM_VAL :: "config \<Rightarrow> string \<Rightarrow> error + string" where
  "GEM5_DEPRECATED_ENUM_VAL cfg message =
     ifdef_GNUC cfg
       (if clang cfg \<or> 6 \<le> GNUC_value cfg then GEM5_DEPRECATED cfg message else Inr '''')"

text \<open>Lines 158 to 162.\<close>

definition GEM5_CLASS_VAR_USED :: "config \<Rightarrow> error + string" where
  "GEM5_CLASS_VAR_USED cfg = (if clang cfg then GEM5_VAR_USED cfg else Inr '''')"

section \<open>Expression and statement macros: what the expansion computes\<close>

text \<open>
  The remaining macros of the block of line 88 expand to C++ expressions and statements
  around their arguments. An argument is an arbitrary piece of the caller's code, so it is
  taken by what it does: an expression maps the program state to its value and the state
  it leaves; a statement maps the state to the way it completes and the state it leaves,
  or to \<open>None\<close> when it does not return. A statement completes normally, or by a \<^verbatim>\<open>break\<close>,
  a \<^verbatim>\<open>continue\<close> or a \<^verbatim>\<open>return\<close> that leaves it. Each C++ construct the expansions use
  is one combinator, and each macro is the term the header writes with them. Left out
  are expressions that do not yield a value (they throw, or loop), \<^verbatim>\<open>goto\<close> and exceptions.
\<close>

datatype outcome = Normal | Break | Continue | Return

type_synonym ('s, 'v) expr = "'s \<Rightarrow> 'v \<times> 's"

type_synonym 's stmt = "'s \<Rightarrow> (outcome \<times> 's) option"

text \<open>
  Preprocess, then run from state \<open>s\<close>: the \<^verbatim>\<open>#error\<close> of a toolchain without the macro,
  or what the expansion yields.
\<close>

definition run :: "error + ('s \<Rightarrow> 'r) \<Rightarrow> 's \<Rightarrow> error + 'r" where
  "run expansion s = (case expansion of Inl e \<Rightarrow> Inl e | Inr f \<Rightarrow> Inr (f s))"

definition literal :: "'v \<Rightarrow> ('s, 'v) expr" where
  "literal v = (\<lambda>s. (v, s))"

text \<open>
  \<^verbatim>\<open>!e\<close> converts its operand to \<^verbatim>\<open>bool\<close> (anything but zero is true) and negates it; as an
  integer, true is 1 and false is 0.
\<close>

definition logical_not :: "('s, int) expr \<Rightarrow> ('s, int) expr" where
  "logical_not e = (\<lambda>s. case e s of (v, s1) \<Rightarrow> (if v = 0 then 1 else 0, s1))"

text \<open>
  \<^verbatim>\<open>long __builtin_expect(long exp, long c)\<close> is the compiler's: it returns the value of
  \<^verbatim>\<open>exp\<close>; \<^verbatim>\<open>c\<close>, the value expected, only advises the optimizer.
\<close>

definition builtin_expect :: "('s, int) expr \<Rightarrow> ('s, int) expr \<Rightarrow> ('s, int) expr" where
  "builtin_expect exp c =
     (\<lambda>s. case exp s of (v, s1) \<Rightarrow> (case c s1 of (expected, s2) \<Rightarrow> (v, s2)))"

text \<open>Lines 113 and 114.\<close>

definition GEM5_LIKELY :: "config \<Rightarrow> ('s, int) expr \<Rightarrow> error + ('s, int) expr" where
  "GEM5_LIKELY cfg cond =
     ifdef_GNUC cfg (Inr (builtin_expect (logical_not (logical_not cond)) (literal 1)))"

definition GEM5_UNLIKELY :: "config \<Rightarrow> ('s, int) expr \<Rightarrow> error + ('s, int) expr" where
  "GEM5_UNLIKELY cfg cond =
     ifdef_GNUC cfg (Inr (builtin_expect (logical_not (logical_not cond)) (literal 0)))"

text \<open>The comma operator evaluates its left operand, drops the value, then its right.\<close>

definition comma :: "('s, 'a) expr \<Rightarrow> ('s, 'b) expr \<Rightarrow> ('s, 'b) expr" where
  "comma l r = (\<lambda>s. case l s of (dropped, s1) \<Rightarrow> r s1)"

text \<open>
  A lambda expression without captures evaluates to a closure object that holds its body;
  the body runs only when the closure is called.
\<close>

datatype 's closure = Closure "('s, int) expr"

definition lambda_expression :: "('s, int) expr \<Rightarrow> ('s, 's closure) expr" where
  "lambda_expression body = (\<lambda>s. (Closure body, s))"

text \<open>
  The body on line 135, \<^verbatim>\<open>A int name{}; return name;\<close> with \<^verbatim>\<open>A\<close> the deprecated
  attribute: a local \<^verbatim>\<open>int\<close>, initialised to zero, and its value returned. Attribute and
  name change what the compiler reports, not what the body computes.
\<close>

definition declare_and_return :: "string \<Rightarrow> string \<Rightarrow> ('s, int) expr" where
  "declare_and_return attribute name = (\<lambda>s. (0, s))"

text \<open>
  A comma between operands of which one is of class type is not always the built-in
  operator: the compiler looks for a user-defined \<^verbatim>\<open>operator,\<close> that accepts the two
  operands, and when one is viable the expression is a call of it with the values of
  both operands. \<open>user\<close> is what that lookup finds where the expression stands: \<open>None\<close>,
  and the comma is the built-in one, or the operator function (taken here to return a
  value of the right operand's type). A closure is of class type, so this is the comma of
  line 135.
\<close>

definition comma_operator ::
  "('a \<Rightarrow> 'b \<Rightarrow> ('s, 'b) expr) option \<Rightarrow> ('s, 'a) expr \<Rightarrow> ('s, 'b) expr \<Rightarrow> ('s, 'b) expr" where
  "comma_operator user l r =
     (case user of
        None \<Rightarrow> comma l r
      | Some operator \<Rightarrow>
          (\<lambda>s. case l s of (a, s1) \<Rightarrow> (case r s1 of (b, s2) \<Rightarrow> operator a b s2)))"

text \<open>
  Lines 134 and 135. Nothing guards the comma between the lambda and \<^verbatim>\<open>(definition)\<close>
  against a user-defined operator (line 148 guards its own by a cast to \<^verbatim>\<open>void\<close>), so the
  macro takes what the lookup at its call site finds.
\<close>

definition GEM5_DEPRECATED_MACRO ::
  "config \<Rightarrow> ('s closure \<Rightarrow> 'v \<Rightarrow> ('s, 'v) expr) option \<Rightarrow> string \<Rightarrow> ('s, 'v) expr \<Rightarrow> string \<Rightarrow>
   error + ('s, 'v) expr" where
  "GEM5_DEPRECATED_MACRO cfg user_comma name definition message =
     ifdef_GNUC cfg
       (case GEM5_DEPRECATED cfg message of
          Inl e \<Rightarrow> Inl e
        | Inr attribute \<Rightarrow>
            Inr (comma_operator user_comma
                   (lambda_expression (declare_and_return attribute name)) definition))"



text \<open>
  A compound statement runs its statements in order and stops at the first that does not
  complete normally.
\<close>

fun compound :: "'s stmt list \<Rightarrow> 's stmt" where
  "compound [] s = Some (Normal, s)"
| "compound (x # xs) s =
     (case x s of
        None \<Rightarrow> None
      | Some (Normal, s1) \<Rightarrow> compound xs s1
      | Some (jump, s1) \<Rightarrow> Some (jump, s1))"

text \<open>
  \<^verbatim>\<open>do body while (cond);\<close> runs the body, then the condition, and starts over while the
  condition is not zero. A \<^verbatim>\<open>break\<close> in the body ends the loop, a \<^verbatim>\<open>continue\<close> goes on
  with the condition, a \<^verbatim>\<open>return\<close> leaves the loop and what is around it. A loop that
  never ends is \<open>None\<close>.
\<close>

partial_function (option) do_while :: "'s stmt \<Rightarrow> ('s, int) expr \<Rightarrow> 's stmt" where
  "do_while body cond s =
     (case body s of
        None \<Rightarrow> None
      | Some (Break, s1) \<Rightarrow> Some (Normal, s1)
      | Some (Return, s1) \<Rightarrow> Some (Return, s1)
      | Some (completed, s1) \<Rightarrow>
          (case cond s1 of
             (c, s2) \<Rightarrow> if c \<noteq> 0 then do_while body cond s2 else Some (Normal, s2)))"


definition void_cast :: "('s, 'v) expr \<Rightarrow> ('s, unit) expr" where
  "void_cast e = (\<lambda>s. case e s of (dropped, s1) \<Rightarrow> ((), s1))"

text \<open>The elements of a braced initializer list are evaluated in the order written.\<close>

fun braced_init_list :: "('s, 'v) expr list \<Rightarrow> ('s, 'v list) expr" where
  "braced_init_list [] s = ([], s)"
| "braced_init_list (e # es) s =
     (case e s of (v, s1) \<Rightarrow> (case braced_init_list es s1 of (vs, s2) \<Rightarrow> (v # vs, s2)))"

text \<open>
  The arguments of line 148 are written by the caller and may use the caller's names. What
  a name stands for depends on the scope the expression is compiled in: something of the
  caller's, or, inside the declaration of line 148, the array that the macro declares. An
  expression with names in it is its meaning for each scope.
\<close>

datatype 'x named = Callers 'x | Local_array

type_synonym 'x scope = "string \<Rightarrow> 'x named option"

type_synonym ('x, 's, 'v) open_expr = "'x scope \<Rightarrow> ('s, 'v) expr"

text \<open>
  The initializer on line 148, \<^verbatim>\<open>{ 0, ((void)(__VA_ARGS__), 0)... }\<close>. The pack expansion
  \<^verbatim>\<open>...\<close> instantiates its pattern once per element of the parameter pack; \<open>pack\<close> is the
  list of what \<^verbatim>\<open>(__VA_ARGS__)\<close> becomes for each element, first element first. The left
  operand of this comma is of type \<^verbatim>\<open>void\<close>, so the comma is the built-in one.
\<close>

definition pack_initializer :: "('x, 's, 'v) open_expr list \<Rightarrow> ('x, 's, int) open_expr list" where
  "pack_initializer pack =
     (\<lambda>scope. literal 0) # map (\<lambda>e scope. comma (void_cast (e scope)) (literal 0)) pack"

text \<open>
  \<^verbatim>\<open>A int name[] = { ... };\<close> takes the array's bound from the number of initializers, and
  an array of no elements is ill-formed. The name is declared before its initializer, so
  the initializers are compiled in the scope where \<open>name\<close> stands for the array itself,
  whatever it stood for at the call site. The array is local to the block it stands in:
  what the declaration leaves behind is the state after the initializers ran.
\<close>

definition declare_int_array ::
  "string \<Rightarrow> string \<Rightarrow> ('x, 's, int) open_expr list \<Rightarrow> 'x scope \<Rightarrow> error + 's stmt" where
  "declare_int_array attribute name inits scope =
     (if inits = [] then Inl (ZeroSizeArray name)
      else Inr (\<lambda>s. Some (Normal,
             snd (braced_init_list (map (\<lambda>e. e (scope(name \<mapsto> Local_array))) inits) s))))"

text \<open>
  Lines 147 and 148, with the attribute of lines 73 to 81 on the array; \<open>scope\<close> is the
  scope of the call site.
\<close>

definition GEM5_FOR_EACH_IN_PACK ::
  "config \<Rightarrow> 'x scope \<Rightarrow> ('x, 's, 'v) open_expr list \<Rightarrow> error + 's stmt" where
  "GEM5_FOR_EACH_IN_PACK cfg scope pack =
     (case GEM5_VAR_USED cfg of
        Inl e \<Rightarrow> Inl e
      | Inr attribute \<Rightarrow>
          ifdef_GNUC cfg
            (case declare_int_array attribute ''i'' (pack_initializer pack) scope of
               Inl e \<Rightarrow> Inl e
             | Inr declaration \<Rightarrow> Inr (do_while (compound [declaration]) (literal 0))))"

text \<open>
  For comparison with line 148: the expressions of a list evaluated one after the other
  from the first to the last, each once, keeping only the state.
\<close>

primrec left_to_right :: "('s, 'v) expr list \<Rightarrow> 's \<Rightarrow> 's" where
  "left_to_right [] s = s"
| "left_to_right (e # es) s = left_to_right es (snd (e s))"

section \<open>The statement wrapper as tokens\<close>

text \<open>
  Whether an expansion can stand where one statement is expected is a question about its
  tokens. Lines 134 to 139 once more, token for token; an attribute specifier
  \<^verbatim>\<open>[[...]]\<close> counts as one token, and \<open>definition\<close> is the token list of the argument.
\<close>

type_synonym token = string



text \<open>
  The part of the C++ grammar these tokens need, with the syntax tree each derivation
  builds. An operand is an identifier or a number, an expression in parentheses, a lambda
  expression without captures and parameters, or a GNU statement expression; an
  expression is an operand, or an expression, a comma and an operand. A statement is an
  expression statement, the empty statement, a compound statement, a \<^verbatim>\<open>do\<close> statement
  (which ends with its own semicolon), an \<^verbatim>\<open>if\<close> statement with or without \<^verbatim>\<open>else\<close>, a
  \<^verbatim>\<open>return\<close> statement, or the declaration of an attributed \<^verbatim>\<open>int\<close> with an empty
  initializer.
\<close>

definition identifier_char :: "char \<Rightarrow> bool" where
  "identifier_char c =
     (c \<in> set ''abcdefghijklmnopqrstuvwxyzABCDEFGHIJKLMNOPQRSTUVWXYZ0123456789_'')"

definition word_token :: "token \<Rightarrow> bool" where
  "word_token t =
     (t \<noteq> [] \<and> list_all identifier_char t \<and>
      t \<notin> set [''do'', ''while'', ''if'', ''else'', ''return'', ''int''])"

definition attribute_token :: "token \<Rightarrow> bool" where
  "attribute_token t = (prefix ''[['' t \<and> suffix '']]'' t)"

datatype expr_tree =
    Word token
  | Parens expr_tree
  | CommaOp expr_tree expr_tree
  | LambdaExpr "stmt_tree list"
  | StatementExpr "stmt_tree list"
and stmt_tree =
    ExprStatement expr_tree
  | EmptyStatement
  | CompoundStatement "stmt_tree list"
  | DoWhile stmt_tree expr_tree
  | IfThen expr_tree stmt_tree
  | IfThenElse expr_tree stmt_tree stmt_tree
  | ReturnStatement expr_tree
  | IntDeclaration token token

text \<open>
  An \<^verbatim>\<open>else\<close> belongs to the nearest \<^verbatim>\<open>if\<close> that has none. So the statement between the
  condition and the \<^verbatim>\<open>else\<close> of an \<^verbatim>\<open>if\<close> must not end in an \<^verbatim>\<open>if\<close> that is still open:
  that \<^verbatim>\<open>if\<close> would take the \<^verbatim>\<open>else\<close>.
\<close>

fun open_if :: "stmt_tree \<Rightarrow> bool" where
  "open_if (IfThen c a) = True"
| "open_if (IfThenElse c a b) = open_if b"
| "open_if other = False"

inductive operand :: "token list \<Rightarrow> expr_tree \<Rightarrow> bool"
  and expression :: "token list \<Rightarrow> expr_tree \<Rightarrow> bool"
  and statement :: "token list \<Rightarrow> stmt_tree \<Rightarrow> bool"
  and statements :: "token list \<Rightarrow> stmt_tree list \<Rightarrow> bool" where
  word: "word_token t \<Longrightarrow> operand [t] (Word t)"
| parenthesized: "expression e E \<Longrightarrow> operand (''('' # e @ ['')'']) (Parens E)"
| lambda:
    "statements b B \<Longrightarrow> operand ([''['', '']'', ''('', '')'', ''{''] @ b @ [''}'']) (LambdaExpr B)"
| statement_expression:
    "statements b B \<Longrightarrow> operand ([''('', ''{''] @ b @ [''}'', '')'']) (StatementExpr B)"
| single_operand: "operand e E \<Longrightarrow> expression e E"
| comma_expression:
    "expression a A \<Longrightarrow> operand b B \<Longrightarrow> expression (a @ '','' # b) (CommaOp A B)"
| expression_stmt: "expression e E \<Longrightarrow> statement (e @ ['';'']) (ExprStatement E)"
| empty_stmt: "statement ['';''] EmptyStatement"
| compound_stmt: "statements b B \<Longrightarrow> statement (''{'' # b @ [''}'']) (CompoundStatement B)"
| do_stmt:
    "statement b B \<Longrightarrow> expression c C \<Longrightarrow>
     statement (''do'' # b @ [''while'', ''(''] @ c @ ['')'', '';'']) (DoWhile B C)"
| if_stmt:
    "expression c C \<Longrightarrow> statement a A \<Longrightarrow>
     statement ([''if'', ''(''] @ c @ ['')''] @ a) (IfThen C A)"
| if_else_stmt:
    "expression c C \<Longrightarrow> statement a A \<Longrightarrow> \<not> open_if A \<Longrightarrow> statement b B \<Longrightarrow>
     statement ([''if'', ''(''] @ c @ ['')''] @ a @ ''else'' # b) (IfThenElse C A B)"
| return_stmt: "expression e E \<Longrightarrow> statement (''return'' # e @ ['';'']) (ReturnStatement E)"
| int_declaration:
    "attribute_token a \<Longrightarrow> word_token n \<Longrightarrow>
     statement [a, ''int'', n, ''{'', ''}'', '';''] (IntDeclaration a n)"
| no_statement: "statements [] []"
| more_statements: "statement a A \<Longrightarrow> statements b B \<Longrightarrow> statements (a @ b) (A # B)"



section \<open>The header as a whole, and the legacy names\<close>

text \<open>The macros the header defines under the current prefix, in the order of the file.\<close>

definition modern_macros :: "string list" where
  "modern_macros =
     [''GEM5_FALLTHROUGH'', ''GEM5_NO_DISCARD'', ''GEM5_VAR_USED'', ''GEM5_PACKED'',
      ''GEM5_NO_INLINE'', ''GEM5_PUBLIC'', ''GEM5_LOCAL'', ''GEM5_WEAK'', ''GEM5_ALIGNED'',
      ''GEM5_UNREACHABLE'', ''GEM5_LIKELY'', ''GEM5_UNLIKELY'', ''GEM5_DEPRECATED'',
      ''GEM5_DEPRECATED_ENUM_VAL'', ''GEM5_DEPRECATED_MACRO'', ''GEM5_DEPRECATED_MACRO_STMT'',
      ''GEM5_FOR_EACH_IN_PACK'', ''GEM5_CLASS_VAR_USED'']"

text \<open>Lines 165 to 178: each legacy name with the macro its replacement list names.\<close>

definition legacy_aliases :: "(string \<times> string) list" where
  "legacy_aliases =
     [(''M5_VAR_USED'', ''GEM5_VAR_USED''),
      (''M5_NODISCARD'', ''GEM5_NO_DISCARD''),
      (''M5_FALLTHROUGH'', ''GEM5_FALLTHROUGH''),
      (''M5_ATTR_PACKED'', ''GEM5_PACKED''),
      (''M5_NO_INLINE'', ''GEM5_NO_INLINE''),
      (''M5_PUBLIC'', ''GEM5_PUBLIC''),
      (''M5_LOCAL'', ''GEM5_LOCAL''),
      (''M5_WEAK'', ''GEM5_WEAK''),
      (''M5_ALIGNED'', ''GEM5_ALIGNED''),
      (''M5_UNREACHABLE'', ''GEM5_UNREACHABLE''),
      (''M5_LIKELY'', ''GEM5_LIKELY''),
      (''M5_UNLIKELY'', ''GEM5_UNLIKELY''),
      (''M5_FOR_EACH_IN_PACK'', ''GEM5_FOR_EACH_IN_PACK''),
      (''M5_CLASS_VAR_USED'', ''GEM5_CLASS_VAR_USED'')]"

text \<open>The same lines as macros: a legacy macro expands to a use of the current one.\<close>

definition M5_VAR_USED :: "config \<Rightarrow> error + string" where
  "M5_VAR_USED cfg = GEM5_VAR_USED cfg"

definition M5_NODISCARD :: "config \<Rightarrow> error + string" where
  "M5_NODISCARD cfg = GEM5_NO_DISCARD cfg"

definition M5_FALLTHROUGH :: "config \<Rightarrow> error + string" where
  "M5_FALLTHROUGH cfg = GEM5_FALLTHROUGH cfg"

definition M5_ATTR_PACKED :: "config \<Rightarrow> error + string" where
  "M5_ATTR_PACKED cfg = GEM5_PACKED cfg"

definition M5_NO_INLINE :: "config \<Rightarrow> error + string" where
  "M5_NO_INLINE cfg = GEM5_NO_INLINE cfg"

definition M5_PUBLIC :: "config \<Rightarrow> error + string" where
  "M5_PUBLIC cfg = GEM5_PUBLIC cfg"

definition M5_LOCAL :: "config \<Rightarrow> error + string" where
  "M5_LOCAL cfg = GEM5_LOCAL cfg"

definition M5_WEAK :: "config \<Rightarrow> error + string" where
  "M5_WEAK cfg = GEM5_WEAK cfg"

definition M5_ALIGNED :: "config \<Rightarrow> string \<Rightarrow> error + string" where
  "M5_ALIGNED cfg x = GEM5_ALIGNED cfg x"

definition M5_UNREACHABLE :: "config \<Rightarrow> error + string" where
  "M5_UNREACHABLE cfg = GEM5_UNREACHABLE cfg"

definition M5_LIKELY :: "config \<Rightarrow> ('s, int) expr \<Rightarrow> error + ('s, int) expr" where
  "M5_LIKELY cfg x = GEM5_LIKELY cfg x"

definition M5_UNLIKELY :: "config \<Rightarrow> ('s, int) expr \<Rightarrow> error + ('s, int) expr" where
  "M5_UNLIKELY cfg x = GEM5_UNLIKELY cfg x"

definition M5_FOR_EACH_IN_PACK ::
  "config \<Rightarrow> 'x scope \<Rightarrow> ('x, 's, 'v) open_expr list \<Rightarrow> error + 's stmt" where
  "M5_FOR_EACH_IN_PACK cfg scope pack = GEM5_FOR_EACH_IN_PACK cfg scope pack"

definition M5_CLASS_VAR_USED :: "config \<Rightarrow> error + string" where
  "M5_CLASS_VAR_USED cfg = GEM5_CLASS_VAR_USED cfg"

text \<open>
  Preprocessing the whole header: the first \<^verbatim>\<open>#error\<close> on the way (line 80, then line
  151) stops it; otherwise every macro above is defined.
\<close>

definition compiler_hh :: "config \<Rightarrow> error + string list" where
  "compiler_hh cfg =
     (case GEM5_VAR_USED cfg of
        Inl e \<Rightarrow> Inl e
      | Inr attribute \<Rightarrow> ifdef_GNUC cfg (Inr (modern_macros @ map fst legacy_aliases)))"

text \<open>
  The form of a GNU vendor attribute: \<^verbatim>\<open>[[gnu::\<close>, an identifier, possibly arguments in
  parentheses, \<^verbatim>\<open>]]\<close>.
\<close>

definition gnu_attribute :: "string \<Rightarrow> bool" where
  "gnu_attribute t =
     (prefix ''[[gnu::'' t \<and> suffix '']]'' t \<and>
      (let inner = take (length t - 9) (drop 7 t);
           arguments = dropWhile identifier_char inner
       in takeWhile identifier_char inner \<noteq> [] \<and>
          (arguments = [] \<or> (prefix ''('' arguments \<and> suffix '')'' arguments))))"

section \<open>Auxiliary facts\<close>

lemma ifdef_GNUC_Some: "GNUC cfg = Some v \<Longrightarrow> ifdef_GNUC cfg body = body"
  by (simp add: ifdef_GNUC_def defined_GNUC_def)

lemma GEM5_VAR_USED_Some:
  "GNUC cfg = Some v \<Longrightarrow>
   GEM5_VAR_USED cfg =
     Inr (if has_cpp_attribute cfg ''maybe_unused'' then ''[[maybe_unused]]'' else ''[[gnu::unused]]'')"
  by (simp add: GEM5_VAR_USED_def defined_GNUC_def)

text \<open>
  A \<^verbatim>\<open>do ... while (0)\<close> is its body, run once; a \<^verbatim>\<open>break\<close> or \<^verbatim>\<open>continue\<close> that
  leaves the body ends with the loop.
\<close>

lemma do_while_literal_0:
  "do_while body (literal 0) s =
     (case body s of
        None \<Rightarrow> None
      | Some (out, s1) \<Rightarrow> Some (if out = Return then Return else Normal, s1))"
  by (subst do_while.simps) (simp add: literal_def split: option.split outcome.split)

text \<open>
  Whatever the body of the lambda is, the built-in comma with the lambda on its left is
  its right operand: the closure is built and dropped, its body never runs.
\<close>

lemma comma_lambda_expression: "comma (lambda_expression body) e = e"
  by (simp add: comma_def lambda_expression_def)

lemma braced_init_list_pack:
  "snd (braced_init_list (map (\<lambda>e. comma (void_cast (e scope)) (literal (0 :: int))) pack) s)
     = left_to_right (map (\<lambda>e. e scope) pack) s"
proof (induction pack arbitrary: s)
  case Nil
  show ?case by simp
next
  case (Cons x xs)
  show ?case
    using Cons.IH [of "snd (x scope s)"]
    by (simp add: comma_def void_cast_def literal_def case_prod_beta)
qed

lemma pack_initializer_nonempty: "pack_initializer pack \<noteq> []"
  by (simp add: pack_initializer_def)

lemma pack_initializer_effect:
  "snd (braced_init_list (map (\<lambda>e. e scope) (pack_initializer pack)) s)
     = left_to_right (map (\<lambda>e. e scope) pack) s"
  using braced_init_list_pack [of scope pack s]
  by (simp add: pack_initializer_def literal_def case_prod_beta o_def)

text \<open>
  What line 148 does for any pack: it evaluates the expressions first to last, each once,
  as they read where \<^verbatim>\<open>i\<close> is the macro's own array.
\<close>

lemma GEM5_FOR_EACH_IN_PACK_under_its_array:
  "GNUC cfg = Some v \<Longrightarrow>
     run (GEM5_FOR_EACH_IN_PACK cfg scope pack) s =
       Inr (Some (Normal, left_to_right (map (\<lambda>e. e (scope(''i'' \<mapsto> Local_array))) pack) s))"
  by (simp add: GEM5_FOR_EACH_IN_PACK_def GEM5_VAR_USED_Some ifdef_GNUC_Some run_def
      declare_int_array_def do_while_literal_0 pack_initializer_effect
      pack_initializer_nonempty)

text \<open>
  For a pack in which no expression reads differently under the macro's \<^verbatim>\<open>i\<close>, that is
  the caller's expressions in order.
\<close>

lemma GEM5_FOR_EACH_IN_PACK_without_the_name_i:
  assumes "GNUC cfg = Some v"
    and "list_all (\<lambda>e. e (scope(''i'' \<mapsto> Local_array)) = e scope) pack"
  shows "run (GEM5_FOR_EACH_IN_PACK cfg scope pack) s =
           Inr (Some (Normal, left_to_right (map (\<lambda>e. e scope) pack) s))"
proof -
  from assms(2) have "map (\<lambda>e. e (scope(''i'' \<mapsto> Local_array))) pack = map (\<lambda>e. e scope) pack"
    by (induction pack) simp_all
  with GEM5_FOR_EACH_IN_PACK_under_its_array [OF assms(1), of scope pack s] show ?thesis
    by simp
qed

text \<open>With the built-in comma, line 135 is its definition.\<close>

lemma GEM5_DEPRECATED_MACRO_builtin_comma:
  "GNUC cfg = Some v \<Longrightarrow>
     run (GEM5_DEPRECATED_MACRO cfg None name definition message) s = Inr (definition s)"
  by (simp add: GEM5_DEPRECATED_MACRO_def GEM5_DEPRECATED_def ifdef_GNUC_Some run_def
      comma_operator_def comma_lambda_expression)





text \<open>No derivation puts an \<^verbatim>\<open>else\<close> after a statement that ends in an open \<^verbatim>\<open>if\<close>.\<close>

lemma else_after_closed_statement:
  assumes "statement ts (IfThenElse C A B)"
  shows "\<not> open_if A"
  using assms by (cases rule: statement.cases) simp_all

section \<open>Facts about the grammar\<close>

text \<open>
  What a derivation can start with, and what the tree of a statement must be when its
  first token is known.
\<close>

lemma expression_first:
  "expression e E \<Longrightarrow> e \<noteq> [] \<and> (word_token (hd e) \<or> hd e = ''('' \<or> hd e = ''['')"
proof (induction rule: operand_expression_statement_statements.inducts(2)
        [where ?P1.0 = "\<lambda>e E. e \<noteq> [] \<and> (word_token (hd e) \<or> hd e = ''('' \<or> hd e = ''['')"
           and ?P3.0 = "\<lambda>ts T. True" and ?P4.0 = "\<lambda>ts T. True"])
  case (comma_expression a A b B)
  then show ?case by (simp add: hd_append)
qed simp_all

lemma expression_keywords_in_braces:
  "expression e E \<Longrightarrow>
     ''if'' \<in> set e \<or> ''else'' \<in> set e \<or> '';'' \<in> set e \<longrightarrow> ''{'' \<in> set e"
proof (induction rule: operand_expression_statement_statements.inducts(2)
        [where ?P1.0 = "\<lambda>e E. ''if'' \<in> set e \<or> ''else'' \<in> set e \<or> '';'' \<in> set e
                              \<longrightarrow> ''{'' \<in> set e"
           and ?P3.0 = "\<lambda>ts T. True" and ?P4.0 = "\<lambda>ts T. True"])
  case (word t)
  have "\<not> word_token ''if''" "\<not> word_token ''else''" "\<not> word_token '';''"
    by (simp_all add: word_token_def identifier_char_def)
  with word show ?case by auto
next
  case (comma_expression a A b B)
  then show ?case by (simp only: set_append set_simps Un_iff insert_iff) blast
next
  case (parenthesized e E)
  then show ?case by simp
next
  case (lambda b B)
  then show ?case by simp
next
  case (statement_expression b B)
  then show ?case by simp
next
  case (single_operand e E)
  then show ?case by simp
qed simp_all

lemma operand_word:
  assumes "operand [t] E"
  shows "E = Word t"
proof (rule operand.cases [OF assms(1)])
  fix t' assume "[t] = [t']" "E = Word t'"
  then show ?thesis by simp
next
  fix e E' assume "[t] = ''('' # e @ ['')'']"
  then show ?thesis by simp
next
  fix b B assume "[t] = [''['', '']'', ''('', '')'', ''{''] @ b @ [''}'']"
  then show ?thesis by simp
next
  fix b B assume "[t] = [''('', ''{''] @ b @ [''}'', '')'']"
  then show ?thesis by simp
qed

lemma expression_word:
  assumes "expression [t] E"
  shows "E = Word t"
proof (rule expression.cases [OF assms(1)])
  fix e E' assume "[t] = e" "E = E'" "operand e E'"
  then show ?thesis using operand_word by blast
next
  fix a A b B assume eq: "[t] = a @ '','' # b" and a: "expression a A"
  from expression_first [OF a] eq show ?thesis
    by (simp add: Cons_eq_append_conv)
qed

lemma statement_after_word:
  assumes s: "statement (t # r) A" and t: "word_token t"
  obtains e E where "t # r = e @ ['';'']" and "expression e E" and "A = ExprStatement E"
proof (rule statement.cases [OF s])
  fix e E assume "t # r = e @ ['';'']" "A = ExprStatement E" "expression e E"
  then show thesis using that by blast
next
  assume "t # r = ['';'']"
  with t show thesis by (simp add: word_token_def identifier_char_def)
next
  fix b B assume "t # r = ''{'' # b @ [''}'']"
  with t show thesis by (simp add: word_token_def identifier_char_def)
next
  fix b B c C assume "t # r = ''do'' # b @ [''while'', ''(''] @ c @ ['')'', '';'']"
  with t show thesis by (simp add: word_token_def)
next
  fix c C a A' assume "t # r = [''if'', ''(''] @ c @ ['')''] @ a"
  with t show thesis by (simp add: word_token_def)
next
  fix c C a A' b B assume "t # r = [''if'', ''(''] @ c @ ['')''] @ a @ ''else'' # b"
  with t show thesis by (simp add: word_token_def)
next
  fix e E assume "t # r = ''return'' # e @ ['';'']"
  with t show thesis by (simp add: word_token_def)
next
  fix a n assume eq: "t # r = [a, ''int'', n, ''{'', ''}'', '';'']" and a: "attribute_token a"
  from a obtain zs where "a = ''[['' @ zs"
    by (auto simp: attribute_token_def prefix_def)
  with eq t show thesis
    by (simp add: word_token_def identifier_char_def)
qed

lemma statement_after_if:
  assumes s: "statement (''if'' # r) A"
  obtains (no_else) c C a A' where
      "r = ''('' # c @ '')'' # a" and "expression c C" and "statement a A'" and "A = IfThen C A'"
    | (with_else) c C a A' b B where
      "r = ''('' # c @ '')'' # a @ ''else'' # b" and "expression c C" and "statement a A'"
      and "\<not> open_if A'" and "statement b B" and "A = IfThenElse C A' B"
proof (rule statement.cases [OF s])
  fix e E assume eq: "''if'' # r = e @ ['';'']" and e: "expression e E"
  from expression_first [OF e] eq have "hd e = ''if''"
    by (simp add: Cons_eq_append_conv) auto
  with expression_first [OF e] show thesis
    by (simp add: word_token_def)
next
  assume "''if'' # r = ['';'']"
  then show thesis by simp
next
  fix b B assume "''if'' # r = ''{'' # b @ [''}'']"
  then show thesis by simp
next
  fix b B c C assume "''if'' # r = ''do'' # b @ [''while'', ''(''] @ c @ ['')'', '';'']"
  then show thesis by simp
next
  fix c C a A'
  assume "''if'' # r = [''if'', ''(''] @ c @ ['')''] @ a" "A = IfThen C A'"
    "expression c C" "statement a A'"
  then show thesis using no_else by simp
next
  fix c C a A' b B
  assume "''if'' # r = [''if'', ''(''] @ c @ ['')''] @ a @ ''else'' # b" "A = IfThenElse C A' B"
    "expression c C" "statement a A'" "\<not> open_if A'" "statement b B"
  then show thesis using with_else by simp
next
  fix e E assume "''if'' # r = ''return'' # e @ ['';'']"
  then show thesis by simp
next
  fix a n assume "''if'' # r = [a, ''int'', n, ''{'', ''}'', '';'']" and "attribute_token a"
  then show thesis by (auto simp: attribute_token_def)
qed

lemma brace_statement:
  assumes s: "statement (''{'' # r) A"
  shows "last (''{'' # r) = ''}''"
proof (rule statement.cases [OF s])
  fix e E assume eq: "''{'' # r = e @ ['';'']" and e: "expression e E"
  from expression_first [OF e] eq have "hd e = ''{''"
    by (simp add: Cons_eq_append_conv) auto
  with expression_first [OF e] show ?thesis
    by (simp add: word_token_def identifier_char_def)
next
  assume "''{'' # r = ['';'']"
  then show ?thesis by simp
next
  fix b B assume "''{'' # r = ''{'' # b @ [''}'']"
  then show ?thesis by simp
next
  fix b B c C assume "''{'' # r = ''do'' # b @ [''while'', ''(''] @ c @ ['')'', '';'']"
  then show ?thesis by simp
next
  fix c C a A' assume "''{'' # r = [''if'', ''(''] @ c @ ['')''] @ a"
  then show ?thesis by simp
next
  fix c C a A' b B assume "''{'' # r = [''if'', ''(''] @ c @ ['')''] @ a @ ''else'' # b"
  then show ?thesis by simp
next
  fix e E assume "''{'' # r = ''return'' # e @ ['';'']"
  then show ?thesis by simp
next
  fix a n assume "''{'' # r = [a, ''int'', n, ''{'', ''}'', '';'']" and "attribute_token a"
  then show ?thesis by (auto simp: attribute_token_def)
qed

lemma word_tokens: "word_token ''c''" "word_token ''x''" "word_token ''f''" "word_token ''g''"
  by (simp_all add: word_token_def identifier_char_def)

lemma word_statement:
  assumes "statement [t, '';''] A" and "word_token t"
  shows "A = ExprStatement (Word t)"
proof -
  from assms obtain e E where eq: "[t, '';''] = e @ ['';'']" and e: "expression e E"
    and A: "A = ExprStatement E"
    by (rule statement_after_word)
  from eq have "e = [t]" by simp
  with e A expression_word show ?thesis by blast
qed

lemma no_statement_across_else:
  assumes s: "statement [''f'', '';'', ''else'', ''g'', '';''] A"
  shows False
proof -
  from s word_tokens(3) obtain e E where eq: "[''f'', '';'', ''else'', ''g'', '';''] = e @ ['';'']"
    and e: "expression e E"
    by (rule statement_after_word)
  from eq have "e = [''f'', '';'', ''else'', ''g'']" by (simp add: Cons_eq_append_conv)
  with expression_keywords_in_braces [OF e] show False by simp
qed

lemma inner_if_alone:
  assumes s: "statement [''if'', ''('', ''x'', '')'', ''f'', '';''] A"
  shows "A = IfThen (Word ''x'') (ExprStatement (Word ''f''))"
  using s
proof (cases rule: statement_after_if)
  case (no_else c C a A')
  from no_else(1) have "c = [''x''] \<and> a = [''f'', '';'']"
    by (auto simp: Cons_eq_append_conv)
  with no_else expression_word word_statement word_tokens show ?thesis by blast
next
  case (with_else c C a A' b B)
  from with_else(1) show ?thesis
    by (auto simp: Cons_eq_append_conv)
qed

lemma inner_if_with_else:
  assumes s: "statement [''if'', ''('', ''x'', '')'', ''f'', '';'', ''else'', ''g'', '';''] A"
  shows "A = IfThenElse (Word ''x'') (ExprStatement (Word ''f'')) (ExprStatement (Word ''g''))"
  using s
proof (cases rule: statement_after_if)
  case (no_else c C a A')
  from no_else(1) have "a = [''f'', '';'', ''else'', ''g'', '';'']"
    by (auto simp: Cons_eq_append_conv)
  with no_else(3) no_statement_across_else show ?thesis by blast
next
  case (with_else c C a A' b B)
  from with_else(1) have "c = [''x''] \<and> a = [''f'', '';''] \<and> b = [''g'', '';'']"
    by (auto simp: Cons_eq_append_conv)
  with with_else expression_word word_statement word_tokens show ?thesis by blast
qed

section \<open>The branch hints\<close>

text \<open>
  C1. Where the branch hints are defined (\<^verbatim>\<open>__GNUC__\<close> is), \<^verbatim>\<open>GEM5_LIKELY(cond)\<close> and
  \<^verbatim>\<open>GEM5_UNLIKELY(cond)\<close> run from any state \<open>s\<close> yield the truth value of \<open>cond\<close> (1 when
  the value of \<open>cond\<close> is not zero, 0 when it is) and leave the state that one evaluation of
  \<open>cond\<close> from \<open>s\<close> leaves: \<open>cond\<close> is evaluated once, and nothing else touches the state.
\<close>

theorem branch_hints_return_truth_value:
  "GNUC cfg = Some v \<Longrightarrow>
     run (GEM5_LIKELY cfg cond) s = Inr (if fst (cond s) \<noteq> 0 then 1 else 0, snd (cond s)) \<and>
     run (GEM5_UNLIKELY cfg cond) s = Inr (if fst (cond s) \<noteq> 0 then 1 else 0, snd (cond s))"
  by (simp add: GEM5_LIKELY_def GEM5_UNLIKELY_def ifdef_GNUC_Some run_def builtin_expect_def
      logical_not_def literal_def split: prod.split)

text \<open>
  On GCC 10, with a condition that counts its own evaluations in the state: the value 5
  comes back as 1, the value 0 as 0, and the count goes from 0 to 1.
\<close>

theorem branch_hints_return_truth_value_witness:
  "run (GEM5_LIKELY \<lparr>has_cpp_attribute = (\<lambda>a. False), GNUC = Some 10, clang = False\<rparr>
          (\<lambda>n :: nat. (5, Suc n))) 0 = Inr (1, 1) \<and>
   run (GEM5_UNLIKELY \<lparr>has_cpp_attribute = (\<lambda>a. False), GNUC = Some 10, clang = False\<rparr>
          (\<lambda>n :: nat. (5, Suc n))) 0 = Inr (1, 1) \<and>
   run (GEM5_LIKELY \<lparr>has_cpp_attribute = (\<lambda>a. False), GNUC = Some 10, clang = False\<rparr>
          (\<lambda>n :: nat. (0, Suc n))) 0 = Inr (0, 1) \<and>
   run (GEM5_UNLIKELY \<lparr>has_cpp_attribute = (\<lambda>a. False), GNUC = Some 10, clang = False\<rparr>
          (\<lambda>n :: nat. (0, Suc n))) 0 = Inr (0, 1)"
  using
    branch_hints_return_truth_value
      [of "\<lparr>has_cpp_attribute = (\<lambda>a. False), GNUC = Some 10, clang = False\<rparr>" 10
          "\<lambda>n :: nat. (5, Suc n)" 0]
    branch_hints_return_truth_value
      [of "\<lparr>has_cpp_attribute = (\<lambda>a. False), GNUC = Some 10, clang = False\<rparr>" 10
          "\<lambda>n :: nat. (0, Suc n)" 0]
  by simp

section \<open>The legacy names\<close>

text \<open>
  C2, as stated, asks for a legacy name for every current macro. The header defines
  \<^verbatim>\<open>GEM5_DEPRECATED\<close>, and no line of 165 to 178 names it.
\<close>

theorem GEM5_DEPRECATED_without_legacy_name:
  "''GEM5_DEPRECATED'' \<in> set modern_macros \<and>
   ''GEM5_DEPRECATED'' \<notin> set (map snd legacy_aliases)"
  by (simp add: modern_macros_def legacy_aliases_def)

text \<open>
  C2, amended. The fourteen legacy names map one-to-one onto fourteen of the eighteen
  current macros: no legacy name and no current macro occurs twice in lines 165 to 178,
  and every target is a macro the header defines. The current macros without a legacy
  name are the four deprecation macros. Each legacy macro expands, on every toolchain, to
  exactly what its current counterpart expands to for the same arguments. An argument is
  taken as the code it stands for after macro replacement: a legacy macro passes its
  argument on replaced, so an argument that is itself a macro whose replacement has a
  comma outside parentheses reaches the current macro as two arguments, and for such an
  argument the two names differ.
\<close>

theorem legacy_names_expand_alike:
  "length legacy_aliases = 14 \<and>
   length modern_macros = 18 \<and>
   distinct (map fst legacy_aliases) \<and>
   distinct (map snd legacy_aliases) \<and>
   filter (\<lambda>m. m \<notin> set modern_macros) (map snd legacy_aliases) = [] \<and>
   filter (\<lambda>m. m \<notin> set (map snd legacy_aliases)) modern_macros =
     [''GEM5_DEPRECATED'', ''GEM5_DEPRECATED_ENUM_VAL'', ''GEM5_DEPRECATED_MACRO'',
      ''GEM5_DEPRECATED_MACRO_STMT''] \<and>
   M5_VAR_USED cfg = GEM5_VAR_USED cfg \<and>
   M5_NODISCARD cfg = GEM5_NO_DISCARD cfg \<and>
   M5_FALLTHROUGH cfg = GEM5_FALLTHROUGH cfg \<and>
   M5_ATTR_PACKED cfg = GEM5_PACKED cfg \<and>
   M5_NO_INLINE cfg = GEM5_NO_INLINE cfg \<and>
   M5_PUBLIC cfg = GEM5_PUBLIC cfg \<and>
   M5_LOCAL cfg = GEM5_LOCAL cfg \<and>
   M5_WEAK cfg = GEM5_WEAK cfg \<and>
   M5_ALIGNED cfg x = GEM5_ALIGNED cfg x \<and>
   M5_UNREACHABLE cfg = GEM5_UNREACHABLE cfg \<and>
   M5_LIKELY cfg c = GEM5_LIKELY cfg c \<and>
   M5_UNLIKELY cfg c = GEM5_UNLIKELY cfg c \<and>
   M5_FOR_EACH_IN_PACK cfg scope pack = GEM5_FOR_EACH_IN_PACK cfg scope pack \<and>
   M5_CLASS_VAR_USED cfg = GEM5_CLASS_VAR_USED cfg"
  by (simp add: modern_macros_def legacy_aliases_def M5_VAR_USED_def M5_NODISCARD_def
      M5_FALLTHROUGH_def M5_ATTR_PACKED_def M5_NO_INLINE_def M5_PUBLIC_def M5_LOCAL_def
      M5_WEAK_def M5_ALIGNED_def M5_UNREACHABLE_def M5_LIKELY_def M5_UNLIKELY_def
      M5_FOR_EACH_IN_PACK_def M5_CLASS_VAR_USED_def)

section \<open>The visibility markers\<close>

text \<open>
  C3. The claim fails on the code at the first of the three visibility markers. On a gcc
  toolchain \<^verbatim>\<open>GEM5_PUBLIC\<close> expands to \<^verbatim>\<open>[[gnu:visibility("default")]]\<close>, with one colon
  between the vendor prefix and the attribute name, which is not of the form
  \<^verbatim>\<open>[[gnu::...]]\<close>; \<^verbatim>\<open>GEM5_LOCAL\<close> and \<^verbatim>\<open>GEM5_WEAK\<close> on the lines right below have the two
  colons and are of that form.
\<close>

theorem GEM5_PUBLIC_single_colon:
  \<open>GEM5_PUBLIC \<lparr>has_cpp_attribute = (\<lambda>a. False), GNUC = Some 10, clang = False\<rparr>
     = Inr ''[[gnu:visibility("default")]]'' \<and>
   \<not> gnu_attribute ''[[gnu:visibility("default")]]'' \<and>
   GEM5_LOCAL \<lparr>has_cpp_attribute = (\<lambda>a. False), GNUC = Some 10, clang = False\<rparr>
     = Inr ''[[gnu::visibility("hidden")]]'' \<and>
   gnu_attribute ''[[gnu::visibility("hidden")]]'' \<and>
   GEM5_WEAK \<lparr>has_cpp_attribute = (\<lambda>a. False), GNUC = Some 10, clang = False\<rparr>
     = Inr ''[[gnu::weak]]'' \<and>
   gnu_attribute ''[[gnu::weak]]''\<close>
  by (simp add: GEM5_PUBLIC_def GEM5_LOCAL_def GEM5_WEAK_def ifdef_GNUC_def defined_GNUC_def
      gnu_attribute_def suffix_to_prefix identifier_char_def Let_def)

section \<open>The advisory markers\<close>

text \<open>
  C4, as stated, has every advisory marker fall back to an empty expansion and never stop
  a build. On a toolchain without \<^verbatim>\<open>[[maybe_unused]]\<close> and without \<^verbatim>\<open>__GNUC__\<close>, the
  maybe-unused marker has no expansion: line 80 stops the build. On the same toolchain
  the deprecated marker has none either, and preprocessing the header fails.
\<close>

theorem maybe_unused_marker_stops_build:
  \<open>\<not> has_cpp_attribute \<lparr>has_cpp_attribute = (\<lambda>a. False), GNUC = None, clang = False\<rparr>
        ''maybe_unused'' \<and>
   GEM5_VAR_USED \<lparr>has_cpp_attribute = (\<lambda>a. False), GNUC = None, clang = False\<rparr>
     = Inl (HashError ''"Don't know what to do for your compiler."'') \<and>
   GEM5_DEPRECATED \<lparr>has_cpp_attribute = (\<lambda>a. False), GNUC = None, clang = False\<rparr> ''"use B"''
     = Inl (HashError ''"Don't know what to do for your compiler."'') \<and>
   compiler_hh \<lparr>has_cpp_attribute = (\<lambda>a. False), GNUC = None, clang = False\<rparr>
     = Inl (HashError ''"Don't know what to do for your compiler."'')\<close>
  by (simp add: GEM5_VAR_USED_def GEM5_DEPRECATED_def compiler_hh_def ifdef_GNUC_def
      defined_GNUC_def dont_know_def)

text \<open>
  C4, amended. The fallthrough marker and the no-discard marker always have an expansion,
  and it is empty when the toolchain lacks the standard attribute. The maybe-unused
  marker, when \<^verbatim>\<open>[[maybe_unused]]\<close> is missing, expands to \<^verbatim>\<open>[[gnu::unused]]\<close> where
  \<^verbatim>\<open>__GNUC__\<close> is defined and stops the build with \<^verbatim>\<open>#error\<close> where it is not. The
  deprecated marker expands to \<^verbatim>\<open>[[gnu::deprecated(message)]]\<close> where \<^verbatim>\<open>__GNUC__\<close> is
  defined and stops the build where it is not; the enum-value marker is empty on GCC
  before 6 and stops the build where \<^verbatim>\<open>__GNUC__\<close> is not defined.
\<close>

theorem advisory_markers_fallbacks:
  \<open>(\<exists>t. GEM5_FALLTHROUGH cfg = Inr t) \<and>
   (\<not> has_cpp_attribute cfg ''fallthrough'' \<longrightarrow> GEM5_FALLTHROUGH cfg = Inr '''') \<and>
   (\<exists>t. GEM5_NO_DISCARD cfg = Inr t) \<and>
   (\<not> has_cpp_attribute cfg ''nodiscard'' \<longrightarrow> GEM5_NO_DISCARD cfg = Inr '''') \<and>
   (\<not> has_cpp_attribute cfg ''maybe_unused'' \<longrightarrow>
      GEM5_VAR_USED cfg =
        (if GNUC cfg \<noteq> None then Inr ''[[gnu::unused]]''
         else Inl (HashError ''"Don't know what to do for your compiler."''))) \<and>
   GEM5_DEPRECATED cfg message =
     (if GNUC cfg \<noteq> None then Inr (''[[gnu::deprecated('' @ message @ '')]]'')
      else Inl (HashError ''"Don't know what to do for your compiler."'')) \<and>
   (GNUC cfg = Some v \<and> \<not> clang cfg \<and> v < 6 \<longrightarrow>
      GEM5_DEPRECATED_ENUM_VAL cfg message = Inr '''') \<and>
   (GNUC cfg = None \<longrightarrow>
      GEM5_DEPRECATED_ENUM_VAL cfg message =
        Inl (HashError ''"Don't know what to do for your compiler."''))\<close>
  by (auto simp: GEM5_FALLTHROUGH_def GEM5_NO_DISCARD_def GEM5_VAR_USED_def GEM5_DEPRECATED_def
      GEM5_DEPRECATED_ENUM_VAL_def ifdef_GNUC_def defined_GNUC_def GNUC_value_def dont_know_def)

text \<open>
  At GCC 5 without any of the standard attributes, and at a toolchain that has neither
  the attributes nor \<^verbatim>\<open>__GNUC__\<close>.
\<close>

theorem advisory_markers_fallbacks_witness:
  \<open>GEM5_FALLTHROUGH \<lparr>has_cpp_attribute = (\<lambda>a. False), GNUC = Some 5, clang = False\<rparr> = Inr '''' \<and>
   GEM5_NO_DISCARD \<lparr>has_cpp_attribute = (\<lambda>a. False), GNUC = Some 5, clang = False\<rparr> = Inr '''' \<and>
   GEM5_VAR_USED \<lparr>has_cpp_attribute = (\<lambda>a. False), GNUC = Some 5, clang = False\<rparr>
     = Inr ''[[gnu::unused]]'' \<and>
   GEM5_DEPRECATED \<lparr>has_cpp_attribute = (\<lambda>a. False), GNUC = Some 5, clang = False\<rparr> ''"use B"''
     = Inr ''[[gnu::deprecated("use B")]]'' \<and>
   GEM5_DEPRECATED_ENUM_VAL \<lparr>has_cpp_attribute = (\<lambda>a. False), GNUC = Some 5, clang = False\<rparr>
     ''"use B"'' = Inr '''' \<and>
   GEM5_FALLTHROUGH \<lparr>has_cpp_attribute = (\<lambda>a. False), GNUC = None, clang = False\<rparr> = Inr '''' \<and>
   GEM5_NO_DISCARD \<lparr>has_cpp_attribute = (\<lambda>a. False), GNUC = None, clang = False\<rparr> = Inr '''' \<and>
   GEM5_VAR_USED \<lparr>has_cpp_attribute = (\<lambda>a. False), GNUC = None, clang = False\<rparr>
     = Inl (HashError ''"Don't know what to do for your compiler."'') \<and>
   GEM5_DEPRECATED_ENUM_VAL \<lparr>has_cpp_attribute = (\<lambda>a. False), GNUC = None, clang = False\<rparr>
     ''"use B"'' = Inl (HashError ''"Don't know what to do for your compiler."'')\<close>
  using
    advisory_markers_fallbacks
      [of "\<lparr>has_cpp_attribute = (\<lambda>a. False), GNUC = Some 5, clang = False\<rparr>"
          \<open>''"use B"''\<close> 5]
    advisory_markers_fallbacks
      [of "\<lparr>has_cpp_attribute = (\<lambda>a. False), GNUC = None, clang = False\<rparr>"
          \<open>''"use B"''\<close> 0]
  by simp

section \<open>Toolchains the header does not know\<close>

text \<open>
  C5, as stated, has the diagnostic identify the unsupported toolchain or feature. Both
  \<^verbatim>\<open>#error\<close> directives of the header carry one and the same text. Of two toolchains
  without \<^verbatim>\<open>__GNUC__\<close>, one has none of the standard attributes and is stopped on line 80,
  where the maybe-unused marker has no definition; the other has all three, has the
  maybe-unused marker, and is stopped on line 151, where the block of compiler specific
  features has none. Both get the same diagnostic, and on the second the packed marker,
  the alignment marker and the unreachable marker all have this one diagnostic in place
  of an expansion: the text tells neither the toolchains nor the features apart.
\<close>

theorem same_diagnostic_whatever_is_unsupported:
  \<open>GEM5_VAR_USED \<lparr>has_cpp_attribute = (\<lambda>a. False), GNUC = None, clang = False\<rparr>
     = Inl (HashError ''"Don't know what to do for your compiler."'') \<and>
   compiler_hh \<lparr>has_cpp_attribute = (\<lambda>a. False), GNUC = None, clang = False\<rparr>
     = Inl (HashError ''"Don't know what to do for your compiler."'') \<and>
   GEM5_VAR_USED \<lparr>has_cpp_attribute = (\<lambda>a. a \<in> set [''fallthrough'', ''nodiscard'', ''maybe_unused'']),
                   GNUC = None, clang = False\<rparr>
     = Inr ''[[maybe_unused]]'' \<and>
   compiler_hh \<lparr>has_cpp_attribute = (\<lambda>a. a \<in> set [''fallthrough'', ''nodiscard'', ''maybe_unused'']),
                 GNUC = None, clang = False\<rparr>
     = Inl (HashError ''"Don't know what to do for your compiler."'') \<and>
   GEM5_PACKED \<lparr>has_cpp_attribute = (\<lambda>a. a \<in> set [''fallthrough'', ''nodiscard'', ''maybe_unused'']),
                 GNUC = None, clang = False\<rparr>
     = Inl (HashError ''"Don't know what to do for your compiler."'') \<and>
   GEM5_ALIGNED \<lparr>has_cpp_attribute = (\<lambda>a. a \<in> set [''fallthrough'', ''nodiscard'', ''maybe_unused'']),
                  GNUC = None, clang = False\<rparr> ''8''
     = Inl (HashError ''"Don't know what to do for your compiler."'') \<and>
   GEM5_UNREACHABLE \<lparr>has_cpp_attribute = (\<lambda>a. a \<in> set [''fallthrough'', ''nodiscard'', ''maybe_unused'']),
                      GNUC = None, clang = False\<rparr>
     = Inl (HashError ''"Don't know what to do for your compiler."'')\<close>
  by (simp add: GEM5_VAR_USED_def compiler_hh_def GEM5_PACKED_def GEM5_ALIGNED_def
      GEM5_UNREACHABLE_def ifdef_GNUC_def defined_GNUC_def dont_know_def)

text \<open>
  C5, amended. On a toolchain where \<^verbatim>\<open>__GNUC__\<close> is not defined, that is, one the header
  does not take for gcc or clang, preprocessing the header stops at an \<^verbatim>\<open>#error\<close>
  directive, and so does every mandatory annotation (packed layout, inline suppression,
  the three visibility markers, alignment, unreachable, both branch hints) in place of an
  expansion. The diagnostic is the directive's fixed text,
  \<^verbatim>\<open>"Don't know what to do for your compiler."\<close>, the same for every such toolchain and
  every annotation; it names neither the toolchain nor the feature.
\<close>

theorem unsupported_toolchain_stops_build:
  \<open>GNUC cfg = None \<Longrightarrow>
     compiler_hh cfg = Inl (HashError ''"Don't know what to do for your compiler."'') \<and>
     GEM5_PACKED cfg = Inl (HashError ''"Don't know what to do for your compiler."'') \<and>
     GEM5_NO_INLINE cfg = Inl (HashError ''"Don't know what to do for your compiler."'') \<and>
     GEM5_PUBLIC cfg = Inl (HashError ''"Don't know what to do for your compiler."'') \<and>
     GEM5_LOCAL cfg = Inl (HashError ''"Don't know what to do for your compiler."'') \<and>
     GEM5_WEAK cfg = Inl (HashError ''"Don't know what to do for your compiler."'') \<and>
     GEM5_ALIGNED cfg alignment = Inl (HashError ''"Don't know what to do for your compiler."'') \<and>
     GEM5_UNREACHABLE cfg = Inl (HashError ''"Don't know what to do for your compiler."'') \<and>
     GEM5_LIKELY cfg cond = Inl (HashError ''"Don't know what to do for your compiler."'') \<and>
     GEM5_UNLIKELY cfg cond = Inl (HashError ''"Don't know what to do for your compiler."'')\<close>
  by (simp add: compiler_hh_def GEM5_VAR_USED_def GEM5_PACKED_def GEM5_NO_INLINE_def
      GEM5_PUBLIC_def GEM5_LOCAL_def GEM5_WEAK_def GEM5_ALIGNED_def GEM5_UNREACHABLE_def
      GEM5_LIKELY_def GEM5_UNLIKELY_def ifdef_GNUC_def defined_GNUC_def dont_know_def)

text \<open>
  Two such toolchains: one with all three standard attributes (stopped on line 151), one
  with none (stopped on line 80 already).
\<close>

theorem unsupported_toolchain_stops_build_witness:
  \<open>compiler_hh \<lparr>has_cpp_attribute = (\<lambda>a. a \<in> set [''fallthrough'', ''nodiscard'', ''maybe_unused'']),
                 GNUC = None, clang = False\<rparr>
     = Inl (HashError ''"Don't know what to do for your compiler."'') \<and>
   compiler_hh \<lparr>has_cpp_attribute = (\<lambda>a. False), GNUC = None, clang = False\<rparr>
     = Inl (HashError ''"Don't know what to do for your compiler."'') \<and>
   GEM5_PACKED \<lparr>has_cpp_attribute = (\<lambda>a. False), GNUC = None, clang = False\<rparr>
     = Inl (HashError ''"Don't know what to do for your compiler."'')\<close>
  using
    unsupported_toolchain_stops_build
      [of "\<lparr>has_cpp_attribute = (\<lambda>a. a \<in> set [''fallthrough'', ''nodiscard'', ''maybe_unused'']),
            GNUC = None, clang = False\<rparr>" "''8''" "literal 1 :: (unit, int) expr"]
    unsupported_toolchain_stops_build
      [of "\<lparr>has_cpp_attribute = (\<lambda>a. False), GNUC = None, clang = False\<rparr>"
          "''8''" "literal 1 :: (unit, int) expr"]
  by simp

section \<open>The deprecation wrappers\<close>

text \<open>
  C6. The header's comment on lines 129 to 131 says that the wrapping macro evaluates to
  the same thing as the original macro, and with the built-in comma it does
  (\<open>GEM5_DEPRECATED_MACRO_builtin_comma\<close>). But line 135 leaves the choice of the comma to
  overload resolution, where line 148 casts the left operand to \<^verbatim>\<open>void\<close>. On GCC 10, take
  a definition of value 41 that leaves the state alone, the state being the number of
  calls of a user-defined \<^verbatim>\<open>operator,\<close> that accepts a closure on its left and returns its
  right operand plus one. The wrapper yields 42 after one call of the operator; the
  definition, and the wrapper under the built-in comma, yield 41 and no call.
\<close>

theorem GEM5_DEPRECATED_MACRO_user_defined_comma:
  \<open>run (GEM5_DEPRECATED_MACRO \<lparr>has_cpp_attribute = (\<lambda>a. False), GNUC = Some 10, clang = False\<rparr>
          (Some (\<lambda>closure v calls. (v + 1, Suc calls)))
          ''OLD_MAX'' (\<lambda>calls. (41 :: int, calls)) ''"use NEW_MAX"'') (0 :: nat)
     = Inr (42, 1) \<and>
   run (GEM5_DEPRECATED_MACRO \<lparr>has_cpp_attribute = (\<lambda>a. False), GNUC = Some 10, clang = False\<rparr>
          None
          ''OLD_MAX'' (\<lambda>calls. (41 :: int, calls)) ''"use NEW_MAX"'') (0 :: nat)
     = Inr (41, 0)\<close>
  by (simp add: GEM5_DEPRECATED_MACRO_def GEM5_DEPRECATED_def ifdef_GNUC_def defined_GNUC_def
      run_def comma_operator_def comma_def lambda_expression_def)



text \<open>
  Without the wrapper, an \<^verbatim>\<open>if\<close> as the definition takes the \<^verbatim>\<open>else\<close> of the call site:
  the only tree of \<^verbatim>\<open>if (c) if (x) f; else g;\<close> has the \<^verbatim>\<open>else\<close> on the inner \<^verbatim>\<open>if\<close>.
\<close>

lemma unwrapped_if_takes_the_else:
  assumes s: "statement [''if'', ''('', ''c'', '')'', ''if'', ''('', ''x'', '')'', ''f'', '';'',
                         ''else'', ''g'', '';''] A"
  shows "A = IfThen (Word ''c'')
               (IfThenElse (Word ''x'') (ExprStatement (Word ''f'')) (ExprStatement (Word ''g'')))"
  using s
proof (cases rule: statement_after_if)
  case (no_else c C a A')
  from no_else(1) have
    "(c = [''c''] \<and> a = [''if'', ''('', ''x'', '')'', ''f'', '';'', ''else'', ''g'', '';'']) \<or>
     (c = [''c'', '')'', ''if'', ''('', ''x''] \<and> a = [''f'', '';'', ''else'', ''g'', '';''])"
    by (auto simp: Cons_eq_append_conv)
  then show ?thesis
  proof
    assume "c = [''c''] \<and> a = [''if'', ''('', ''x'', '')'', ''f'', '';'', ''else'', ''g'', '';'']"
    with no_else expression_word inner_if_with_else show ?thesis by blast
  next
    assume "c = [''c'', '')'', ''if'', ''('', ''x''] \<and> a = [''f'', '';'', ''else'', ''g'', '';'']"
    with no_else(3) no_statement_across_else show ?thesis by blast
  qed
next
  case (with_else c C a A' b B)
  from with_else(1) have
    "(c = [''c''] \<and> a = [''if'', ''('', ''x'', '')'', ''f'', '';'']) \<or>
     c = [''c'', '')'', ''if'', ''('', ''x'']"
    by (auto simp: Cons_eq_append_conv)
  then show ?thesis
  proof
    assume "c = [''c''] \<and> a = [''if'', ''('', ''x'', '')'', ''f'', '';'']"
    with with_else(3) inner_if_alone have "A' = IfThen (Word ''x'') (ExprStatement (Word ''f''))"
      by blast
    with with_else(4) show ?thesis by simp
  next
    assume "c = [''c'', '')'', ''if'', ''('', ''x'']"
    with expression_keywords_in_braces [OF with_else(2)] show ?thesis by simp
  qed
qed

text \<open>
  With a compound statement in place of the \<^verbatim>\<open>do ... while (0)\<close>, the semicolon of the
  call site would be a statement too many: \<^verbatim>\<open>if (c) {f;}; else g;\<close> has no tree.
\<close>

lemma braces_then_semicolon_before_else:
  "\<not> statement [''if'', ''('', ''c'', '')'', ''{'', ''f'', '';'', ''}'', '';'', ''else'', ''g'', '';''] A"
proof
  assume "statement [''if'', ''('', ''c'', '')'', ''{'', ''f'', '';'', ''}'', '';'', ''else'', ''g'', '';''] A"
  then show False
  proof (cases rule: statement_after_if)
    case (no_else c C a A')
    from no_else(1) have "a = [''{'', ''f'', '';'', ''}'', '';'', ''else'', ''g'', '';'']"
      by (auto simp: Cons_eq_append_conv)
    with no_else(3) brace_statement [of "[''f'', '';'', ''}'', '';'', ''else'', ''g'', '';'']" A']
    show False by simp
  next
    case (with_else c C a A' b B)
    from with_else(1) have "a = [''{'', ''f'', '';'', ''}'', '';'']"
      by (auto simp: Cons_eq_append_conv)
    with with_else(3) brace_statement [of "[''f'', '';'', ''}'', '';'']" A']
    show False by simp
  qed
qed

section \<open>Evaluating a parameter pack in order\<close>

text \<open>
  C8. The header's comment on lines 141 to 146 promises the expanded pack evaluated in
  order, and for a pack in which no expression depends on what \<^verbatim>\<open>i\<close> stands for that is
  what line 148 does (\<open>GEM5_FOR_EACH_IN_PACK_without_the_name_i\<close>). But line 148 declares
  its array under the plain name \<^verbatim>\<open>i\<close> and puts the caller's expressions into the
  initializer of that array, where \<^verbatim>\<open>i\<close> is the array. On GCC 10, take a call site where
  \<^verbatim>\<open>i\<close> is the caller's 7, and the pattern \<^verbatim>\<open>record(i, args)\<close> over a pack of the two
  elements 1 and 2, where \<^verbatim>\<open>record\<close> logs what its arguments stand for. Evaluated in order
  as the caller wrote them, the two expressions log the caller's 7 with 1, then the
  caller's 7 with 2. Under the macro they log the macro's own array with 1, then with 2.
\<close>

theorem GEM5_FOR_EACH_IN_PACK_captures_i:
  "left_to_right
     (map (\<lambda>e. e [''i'' \<mapsto> Callers (7 :: nat)])
        [\<lambda>scope log. ((), log @ [(scope ''i'', 1 :: nat)]),
         \<lambda>scope log. ((), log @ [(scope ''i'', 2)])])
     [] = [(Some (Callers 7), 1), (Some (Callers 7), 2)] \<and>
   run (GEM5_FOR_EACH_IN_PACK \<lparr>has_cpp_attribute = (\<lambda>a. False), GNUC = Some 10, clang = False\<rparr>
          [''i'' \<mapsto> Callers (7 :: nat)]
          [\<lambda>scope log. ((), log @ [(scope ''i'', 1 :: nat)]),
           \<lambda>scope log. ((), log @ [(scope ''i'', 2)])])
       [] = Inr (Some (Normal, [(Some Local_array, 1), (Some Local_array, 2)]))"
  using
    GEM5_FOR_EACH_IN_PACK_under_its_array
      [of "\<lparr>has_cpp_attribute = (\<lambda>a. False), GNUC = Some 10, clang = False\<rparr>" 10
          "[''i'' \<mapsto> Callers (7 :: nat)]"
          "[\<lambda>scope log. ((), log @ [(scope ''i'', 1 :: nat)]),
            \<lambda>scope log. ((), log @ [(scope ''i'', 2)])]"
          "[]"]
  by simp

text \<open>
  C10. Where \<^verbatim>\<open>__GNUC__\<close> is defined and the pack is empty, the initializer list of line 148
  is the single element \<^verbatim>\<open>0\<close>, so the array has an element and its declaration is
  accepted (with no initializer at all it would be rejected as an array without elements),
  and the statement completes normally and leaves the state as it found it.
\<close>

theorem GEM5_FOR_EACH_IN_PACK_empty_pack:
  "GNUC cfg = Some v \<Longrightarrow> pack = [] \<Longrightarrow>
     pack_initializer pack = [\<lambda>scope. literal 0] \<and>
     declare_int_array attribute ''i'' (pack_initializer pack) scope \<noteq> Inl (ZeroSizeArray ''i'') \<and>
     declare_int_array attribute ''i'' ([] :: ('x, 's, int) open_expr list) scope
       = Inl (ZeroSizeArray ''i'') \<and>
     run (GEM5_FOR_EACH_IN_PACK cfg scope pack) (s :: 's) = Inr (Some (Normal, s))"
  by (simp add: GEM5_FOR_EACH_IN_PACK_def GEM5_VAR_USED_Some ifdef_GNUC_Some run_def
      declare_int_array_def pack_initializer_def do_while_literal_0)
     (simp add: literal_def)

text \<open>On GCC 10, from a state that holds a log with one entry.\<close>

theorem GEM5_FOR_EACH_IN_PACK_empty_pack_witness:
  "run (GEM5_FOR_EACH_IN_PACK \<lparr>has_cpp_attribute = (\<lambda>a. False), GNUC = Some 10, clang = False\<rparr>
          (Map.empty :: nat scope) ([] :: (nat, nat list, bool) open_expr list)) [7]
     = Inr (Some (Normal, [7])) \<and>
   pack_initializer ([] :: (nat, nat list, bool) open_expr list) = [\<lambda>scope. literal 0]"
  using
    GEM5_FOR_EACH_IN_PACK_empty_pack
      [of "\<lparr>has_cpp_attribute = (\<lambda>a. False), GNUC = Some 10, clang = False\<rparr>" 10
          "[] :: (nat, nat list, bool) open_expr list" "''[[gnu::unused]]''"
          "Map.empty :: nat scope" "[7 :: nat]"]
  by simp

section \<open>The enum-value deprecation marker\<close>

text \<open>
  C9. On a toolchain that reaches line 124 (\<^verbatim>\<open>__GNUC__\<close> is defined with some value \<open>v\<close>),
  the enum-value deprecation marker expands to what the plain deprecated marker expands
  to for the same message, namely \<^verbatim>\<open>[[gnu::deprecated(message)]]\<close>, when the toolchain is
  clang or \<open>v\<close> is at least 6; and it expands to nothing when the toolchain is not clang
  and \<open>v\<close> is below 6.
\<close>

theorem GEM5_DEPRECATED_ENUM_VAL_by_version:
  "GNUC cfg = Some v \<Longrightarrow>
     (clang cfg \<or> 6 \<le> v \<longrightarrow>
        GEM5_DEPRECATED_ENUM_VAL cfg message = GEM5_DEPRECATED cfg message \<and>
        GEM5_DEPRECATED cfg message = Inr (''[[gnu::deprecated('' @ message @ '')]]'')) \<and>
     (\<not> clang cfg \<and> v < 6 \<longrightarrow> GEM5_DEPRECATED_ENUM_VAL cfg message = Inr '''')"
  by (auto simp: GEM5_DEPRECATED_ENUM_VAL_def GEM5_DEPRECATED_def ifdef_GNUC_def
      defined_GNUC_def GNUC_value_def)

text \<open>
  At three toolchains: clang (which reports \<^verbatim>\<open>__GNUC__\<close> as 4), GCC 6 and GCC 5.
\<close>

theorem GEM5_DEPRECATED_ENUM_VAL_by_version_witness:
  \<open>GEM5_DEPRECATED_ENUM_VAL
      \<lparr>has_cpp_attribute = (\<lambda>a. False), GNUC = Some 4, clang = True\<rparr> ''"use B"''
      = Inr ''[[gnu::deprecated("use B")]]'' \<and>
   GEM5_DEPRECATED_ENUM_VAL
      \<lparr>has_cpp_attribute = (\<lambda>a. False), GNUC = Some 6, clang = False\<rparr> ''"use B"''
      = Inr ''[[gnu::deprecated("use B")]]'' \<and>
   GEM5_DEPRECATED_ENUM_VAL
      \<lparr>has_cpp_attribute = (\<lambda>a. False), GNUC = Some 5, clang = False\<rparr> ''"use B"''
      = Inr ''''\<close>
  using
    GEM5_DEPRECATED_ENUM_VAL_by_version
      [of "\<lparr>has_cpp_attribute = (\<lambda>a. False), GNUC = Some 4, clang = True\<rparr>" 4
        \<open>''"use B"''\<close>]
    GEM5_DEPRECATED_ENUM_VAL_by_version
      [of "\<lparr>has_cpp_attribute = (\<lambda>a. False), GNUC = Some 6, clang = False\<rparr>" 6
        \<open>''"use B"''\<close>]
    GEM5_DEPRECATED_ENUM_VAL_by_version
      [of "\<lparr>has_cpp_attribute = (\<lambda>a. False), GNUC = Some 5, clang = False\<rparr>" 5
        \<open>''"use B"''\<close>]
  by simp

end
